theory Spec2Isabelle
  imports Complex_Main
begin

section \<open>The crowdsourcing tutorial: data points, votes and labeling functions\<close>

text \<open>
  The notebook \<^verbatim>\<open>crowdsourcing/crowdsourcing_tutorial.ipynb\<close> defines the labeling
  functions of the tutorial: one table-lookup function per crowd worker, and three
  functions that threshold a sentiment score. Everything else it does is a call into a
  library (the applier, the analysis, the label model). This theory embeds the functions
  the notebook defines.

  A data point is a row of the tweet data frame. The functions read its
  \<^verbatim>\<open>tweet_id\<close> and \<^verbatim>\<open>tweet_text\<close>; the preprocessor adds the attribute
  \<^verbatim>\<open>polarity\<close>, which a row does not have before (reading it then raises
  \<^verbatim>\<open>AttributeError\<close>), so the field is optional.
\<close>

record item =
  tweet_id :: int
  tweet_text :: string
  polarity :: "real option"

datatype error = AttributeError | KeyError

text \<open>\<^verbatim>\<open>ABSTAIN = -1\<close>\<close>

definition ABSTAIN :: int where
  "ABSTAIN = -1"

subsection \<open>Crowd worker labeling functions\<close>

text \<open>
  \<^verbatim>\<open>
  def worker_lf(x, worker_dict):
      return worker_dict.get(x.tweet_id, ABSTAIN)
  \<close>
  A worker's dictionary maps tweet ids to the label the worker gave. Python's
  \<^verbatim>\<open>dict.get(key, default)\<close> returns the stored value, or the default when the key
  is missing; it does not raise.
\<close>

definition worker_lf :: "item \<Rightarrow> (int \<rightharpoonup> int) \<Rightarrow> int" where
  "worker_lf x worker_dict =
     (case worker_dict (tweet_id x) of Some l \<Rightarrow> l | None \<Rightarrow> ABSTAIN)"

text \<open>
  \<^verbatim>\<open>
  def make_worker_lf(worker_id):
      worker_dict = worker_dicts[worker_id]
      name = f"worker_{worker_id}"
      return LabelingFunction(name, f=worker_lf, resources={"worker_dict": worker_dict})
  \<close>
  A \<^verbatim>\<open>LabelingFunction\<close> holds a name, the function and the resources the function
  is called with. Indexing \<^verbatim>\<open>worker_dicts\<close> with an unknown worker raises
  \<^verbatim>\<open>KeyError\<close>. The worker id is formatted into the name by \<open>fmt\<close> (Python's
  string formatting of the id).
\<close>

record worker_labeling_function =
  lf_name :: string
  lf_f :: "item \<Rightarrow> (int \<rightharpoonup> int) \<Rightarrow> int"
  lf_resources :: "int \<rightharpoonup> int"

definition make_worker_lf ::
  "('w \<Rightarrow> string) \<Rightarrow> ('w \<rightharpoonup> (int \<rightharpoonup> int)) \<Rightarrow> 'w \<Rightarrow> error + worker_labeling_function" where
  "make_worker_lf fmt worker_dicts worker_id =
     (case worker_dicts worker_id of
        None \<Rightarrow> Inl KeyError
      | Some worker_dict \<Rightarrow>
          Inr \<lparr>lf_name = ''worker_'' @ fmt worker_id, lf_f = worker_lf,
               lf_resources = worker_dict\<rparr>)"

text \<open>Calling a labeling function on a data point passes it the resources.\<close>

definition call_worker_lf :: "worker_labeling_function \<Rightarrow> item \<Rightarrow> int" where
  "call_worker_lf lf x = lf_f lf x (lf_resources lf)"

subsection \<open>Sentiment labeling functions\<close>

text \<open>
  \<^verbatim>\<open>
  @preprocessor(memoize=True)
  def textblob_polarity(x):
      scores = TextBlob(x.tweet_text)
      x.polarity = scores.polarity
      return x
  \<close>
  TextBlob's sentiment analyser is a library: its polarity score is the parameter
  \<open>sentiment\<close>, a function of the tweet's text. The library documents the score as a
  number in the range from -1 to 1, so it is a real number here (never a NaN).
\<close>

definition textblob_polarity :: "(string \<Rightarrow> real) \<Rightarrow> item \<Rightarrow> item" where
  "textblob_polarity sentiment x = x\<lparr>polarity := Some (sentiment (tweet_text x))\<rparr>"

text \<open>
  \<^verbatim>\<open>
  def polarity_positive(x):
      return 1 if x.polarity > 0.3 else -1

  def polarity_negative(x):
      return 0 if x.polarity < -0.25 else -1

  def polarity_negative_2(x):
      return 0 if x.polarity <= 0.3 else -1
  \<close>
  The bodies of the three functions, before decoration. Python compares the score with
  the double nearest to 0.3; no double lies strictly between that constant and 3/10,
  so for a score that is a double both comparisons agree with the comparisons with the
  real number 3/10 made here (and -0.25 is a double itself).
\<close>

definition polarity_positive :: "item \<Rightarrow> error + int" where
  "polarity_positive x =
     (case polarity x of
        None \<Rightarrow> Inl AttributeError
      | Some p \<Rightarrow> Inr (if p > 0.3 then 1 else -1))"

definition polarity_negative :: "item \<Rightarrow> error + int" where
  "polarity_negative x =
     (case polarity x of
        None \<Rightarrow> Inl AttributeError
      | Some p \<Rightarrow> Inr (if p < -0.25 then 0 else -1))"

definition polarity_negative_2 :: "item \<Rightarrow> error + int" where
  "polarity_negative_2 x =
     (case polarity x of
        None \<Rightarrow> Inl AttributeError
      | Some p \<Rightarrow> Inr (if p \<le> 0.3 then 0 else -1))"

text \<open>
  Modelled from the spec: the decorator \<^verbatim>\<open>@labeling_function(pre=[...])\<close> is library
  code; the notebook only applies it. A decorated function is a source that first runs
  its preprocessors on the data point, in the order given, and then the function on the
  result.
\<close>

definition labeling_function ::
  "(item \<Rightarrow> item) list \<Rightarrow> (item \<Rightarrow> error + int) \<Rightarrow> item \<Rightarrow> error + int" where
  "labeling_function pre g x = g (fold (\<lambda>p y. p y) pre x)"

text \<open>
  The three decorated functions, each with \<^verbatim>\<open>pre=[textblob_polarity]\<close>. In the
  notebook the decorated function takes the name of the body; here it is prefixed.
\<close>

definition lf_polarity_positive :: "(string \<Rightarrow> real) \<Rightarrow> item \<Rightarrow> error + int" where
  "lf_polarity_positive sentiment =
     labeling_function [textblob_polarity sentiment] polarity_positive"

definition lf_polarity_negative :: "(string \<Rightarrow> real) \<Rightarrow> item \<Rightarrow> error + int" where
  "lf_polarity_negative sentiment =
     labeling_function [textblob_polarity sentiment] polarity_negative"

definition lf_polarity_negative_2 :: "(string \<Rightarrow> real) \<Rightarrow> item \<Rightarrow> error + int" where
  "lf_polarity_negative_2 sentiment =
     labeling_function [textblob_polarity sentiment] polarity_negative_2"

text \<open>
  \<^verbatim>\<open>text_lfs = [polarity_positive, polarity_negative, polarity_negative_2]\<close>: the
  three bodies, in the notebook's order; they share the one preprocessor.
\<close>

definition text_lfs :: "(item \<Rightarrow> error + int) list" where
  "text_lfs = [polarity_positive, polarity_negative, polarity_negative_2]"

text \<open>
  A source votes on a data point when it returns a label other than \<^verbatim>\<open>ABSTAIN\<close>;
  two sources conflict on a data point when both vote and their labels differ.
\<close>

definition votes :: "error + int \<Rightarrow> bool" where
  "votes r = (case r of Inl e \<Rightarrow> False | Inr v \<Rightarrow> v \<noteq> ABSTAIN)"

definition conflict :: "error + int \<Rightarrow> error + int \<Rightarrow> bool" where
  "conflict r r' =
     (case r of
        Inl e \<Rightarrow> False
      | Inr v \<Rightarrow>
          (case r' of
             Inl e \<Rightarrow> False
           | Inr v' \<Rightarrow> v \<noteq> ABSTAIN \<and> v' \<noteq> ABSTAIN \<and> v \<noteq> v'))"

subsection \<open>The memoised preprocessor\<close>

text \<open>
  Modelled from the spec: \<^verbatim>\<open>memoize=True\<close> asks the library's preprocessor wrapper
  to cache its results; the wrapper is library code. The spec describes it as a
  per-item cache of one preprocessing step, populated lazily: a data point that is in
  the cache is answered from it, any other is preprocessed and stored. The cache is
  state, passed in and returned.
\<close>

type_synonym cache = "item \<rightharpoonup> item"

definition memoized :: "(item \<Rightarrow> item) \<Rightarrow> cache \<Rightarrow> item \<Rightarrow> item \<times> cache" where
  "memoized pre cache x =
     (case cache x of
        Some y \<Rightarrow> (y, cache)
      | None \<Rightarrow> (let y = pre x in (y, cache(x \<mapsto> y))))"

text \<open>A labeling function whose preprocessor is memoised: it threads the cache.\<close>

definition labeling_function_memo ::
  "(item \<Rightarrow> item) \<Rightarrow> (item \<Rightarrow> error + int) \<Rightarrow> cache \<Rightarrow> item \<Rightarrow> (error + int) \<times> cache" where
  "labeling_function_memo pre g cache x =
     (case memoized pre cache x of (y, cache') \<Rightarrow> (g y, cache'))"

text \<open>
  The two pipelines from data points to votes. Both give one row per data point and one
  column per labeling function, in the order of the inputs. The memoised pipeline
  evaluates the cells one after the other and hands the cache from each to the next;
  the plain pipeline runs the preprocessor afresh in every cell.
\<close>

fun apply_row_memo ::
  "(item \<Rightarrow> item) \<Rightarrow> (item \<Rightarrow> error + int) list \<Rightarrow> cache \<Rightarrow> item
     \<Rightarrow> (error + int) list \<times> cache" where
  "apply_row_memo pre [] cache x = ([], cache)"
| "apply_row_memo pre (g # gs) cache x =
     (case labeling_function_memo pre g cache x of (v, cache') \<Rightarrow>
        (case apply_row_memo pre gs cache' x of (vs, cache'') \<Rightarrow> (v # vs, cache'')))"

fun apply_memo ::
  "(item \<Rightarrow> item) \<Rightarrow> (item \<Rightarrow> error + int) list \<Rightarrow> cache \<Rightarrow> item list
     \<Rightarrow> (error + int) list list \<times> cache" where
  "apply_memo pre gs cache [] = ([], cache)"
| "apply_memo pre gs cache (x # xs) =
     (case apply_row_memo pre gs cache x of (row, cache') \<Rightarrow>
        (case apply_memo pre gs cache' xs of (rows, cache'') \<Rightarrow> (row # rows, cache'')))"

definition apply_plain ::
  "(item \<Rightarrow> item) \<Rightarrow> (item \<Rightarrow> error + int) list \<Rightarrow> item list \<Rightarrow> (error + int) list list" where
  "apply_plain pre gs xs = map (\<lambda>x. map (\<lambda>g. labeling_function [pre] g x) gs) xs"

text \<open>
  The invariant of the cache: every entry is what the preprocessor returns on its key.
\<close>

definition cache_ok :: "(item \<Rightarrow> item) \<Rightarrow> cache \<Rightarrow> bool" where
  "cache_ok pre cache = (\<forall>x y. cache x = Some y \<longrightarrow> y = pre x)"

section \<open>Properties of the crowd worker labeling functions\<close>

lemma worker_lf_known: "worker_dict (tweet_id x) = Some l \<Longrightarrow> worker_lf x worker_dict = l"
  by (simp add: worker_lf_def)

lemma worker_lf_unknown: "worker_dict (tweet_id x) = None \<Longrightarrow> worker_lf x worker_dict = ABSTAIN"
  by (simp add: worker_lf_def)

text \<open>
  The labeling function that \<^verbatim>\<open>make_worker_lf\<close> builds for a known worker calls
  \<^verbatim>\<open>worker_lf\<close> with that worker's dictionary.
\<close>

lemma make_worker_lf_calls_worker_lf:
  assumes "make_worker_lf fmt worker_dicts w = Inr lf"
  shows "\<exists>worker_dict. worker_dicts w = Some worker_dict
           \<and> call_worker_lf lf x = worker_lf x worker_dict"
  using assms
  by (auto simp: make_worker_lf_def call_worker_lf_def split: option.splits)

text \<open>
  Claim C10. \<^verbatim>\<open>worker_lf\<close> returns a vote for every data point and every worker
  dictionary: the label stored under the data point's tweet id when the id is a key of
  the dictionary, and \<^verbatim>\<open>ABSTAIN\<close> (that is, -1) when it is not; an unknown tweet id
  is not an error. So every vote is -1 or one of the labels stored in the dictionary.
\<close>

theorem worker_lf_total:
  "(tweet_id x \<in> dom worker_dict \<longrightarrow>
      Some (worker_lf x worker_dict) = worker_dict (tweet_id x))
   \<and> (tweet_id x \<notin> dom worker_dict \<longrightarrow> worker_lf x worker_dict = ABSTAIN)
   \<and> ABSTAIN = -1
   \<and> worker_lf x worker_dict \<in> {-1} \<union> ran worker_dict"
proof (cases "worker_dict (tweet_id x)")
  case None
  then show ?thesis
    by (simp add: worker_lf_unknown domIff ABSTAIN_def)
next
  case (Some l)
  then have "l \<in> ran worker_dict"
    by (auto simp: ran_def)
  with Some show ?thesis
    by (simp add: worker_lf_known domIff ABSTAIN_def)
qed

theorem worker_lf_total_witness:
  "tweet_id \<lparr>tweet_id = 10, tweet_text = ''sunny and warm'', polarity = None\<rparr>
      \<in> dom [10 \<mapsto> 1, 11 \<mapsto> (0::int)]
   \<and> worker_lf \<lparr>tweet_id = 10, tweet_text = ''sunny and warm'', polarity = None\<rparr>
      [10 \<mapsto> 1, 11 \<mapsto> 0] = 1
   \<and> tweet_id \<lparr>tweet_id = 12, tweet_text = ''rain again'', polarity = None\<rparr>
      \<notin> dom [10 \<mapsto> 1, 11 \<mapsto> (0::int)]
   \<and> worker_lf \<lparr>tweet_id = 12, tweet_text = ''rain again'', polarity = None\<rparr>
      [10 \<mapsto> 1, 11 \<mapsto> 0] = -1"
proof -
  define d :: "int \<rightharpoonup> int" where "d = [10 \<mapsto> 1, 11 \<mapsto> 0]"
  define x1 where "x1 = \<lparr>tweet_id = 10, tweet_text = ''sunny and warm'', polarity = None\<rparr>"
  define x2 where "x2 = \<lparr>tweet_id = 12, tweet_text = ''rain again'', polarity = None\<rparr>"
  have known: "tweet_id x1 \<in> dom d"
    by (simp add: d_def x1_def)
  have unknown: "tweet_id x2 \<notin> dom d"
    by (simp add: d_def x2_def)
  from worker_lf_total [of x1 d] known
  have "Some (worker_lf x1 d) = d (tweet_id x1)"
    by blast
  then have v1: "worker_lf x1 d = 1"
    by (simp add: d_def x1_def)
  from worker_lf_total [of x2 d] unknown
  have v2: "worker_lf x2 d = -1"
    by simp
  from known v1 unknown v2 show ?thesis
    unfolding d_def x1_def x2_def by blast
qed

section \<open>Properties of the sentiment labeling functions\<close>

lemma polarity_textblob_polarity:
  "polarity (textblob_polarity sentiment x) = Some (sentiment (tweet_text x))"
  by (simp add: textblob_polarity_def)

text \<open>The vote of each body on a data point the preprocessor has scored.\<close>

lemma polarity_positive_scored:
  "polarity_positive (textblob_polarity sentiment x) =
     Inr (if 0.3 < sentiment (tweet_text x) then 1 else ABSTAIN)"
  by (simp add: polarity_positive_def polarity_textblob_polarity ABSTAIN_def)

lemma polarity_negative_scored:
  "polarity_negative (textblob_polarity sentiment x) =
     Inr (if sentiment (tweet_text x) < -0.25 then 0 else ABSTAIN)"
  by (simp add: polarity_negative_def polarity_textblob_polarity ABSTAIN_def)

lemma polarity_negative_2_scored:
  "polarity_negative_2 (textblob_polarity sentiment x) =
     Inr (if sentiment (tweet_text x) \<le> 0.3 then 0 else ABSTAIN)"
  by (simp add: polarity_negative_2_def polarity_textblob_polarity ABSTAIN_def)

text \<open>A body called on a data point that has no score yet raises.\<close>

lemma polarity_positive_unscored:
  "polarity x = None \<Longrightarrow> polarity_positive x = Inl AttributeError"
  by (simp add: polarity_positive_def)

text \<open>
  Claim C9. On every data point, scored by the preprocessor the two functions declare,
  \<^verbatim>\<open>polarity_positive\<close> returns 1 exactly when the polarity score of the tweet is
  above 0.3, and \<^verbatim>\<open>polarity_negative_2\<close> returns 0 exactly when the score is at
  most 0.3. The two conditions exclude each other, so the two sources never both vote
  and never conflict; and one of the conditions always holds, so exactly one of the two
  votes on every data point.
\<close>

theorem polarity_positive_negative_2_exclusive:
  "(polarity_positive (textblob_polarity sentiment x) = Inr 1
      \<longleftrightarrow> 0.3 < sentiment (tweet_text x))
   \<and> (polarity_negative_2 (textblob_polarity sentiment x) = Inr 0
      \<longleftrightarrow> sentiment (tweet_text x) \<le> 0.3)
   \<and> (votes (polarity_positive (textblob_polarity sentiment x))
      \<longleftrightarrow> 0.3 < sentiment (tweet_text x))
   \<and> (votes (polarity_negative_2 (textblob_polarity sentiment x))
      \<longleftrightarrow> sentiment (tweet_text x) \<le> 0.3)
   \<and> \<not> (votes (polarity_positive (textblob_polarity sentiment x))
          \<and> votes (polarity_negative_2 (textblob_polarity sentiment x)))
   \<and> \<not> conflict (polarity_positive (textblob_polarity sentiment x))
          (polarity_negative_2 (textblob_polarity sentiment x))
   \<and> (votes (polarity_positive (textblob_polarity sentiment x))
        \<or> votes (polarity_negative_2 (textblob_polarity sentiment x)))"
proof (cases "0.3 < sentiment (tweet_text x)")
  case True
  then show ?thesis
    by (simp add: polarity_positive_scored polarity_negative_2_scored votes_def conflict_def
        ABSTAIN_def)
next
  case False
  then show ?thesis
    by (simp add: polarity_positive_scored polarity_negative_2_scored votes_def conflict_def
        ABSTAIN_def)
qed

theorem polarity_positive_negative_2_exclusive_witness:
  "polarity_positive
      (textblob_polarity (\<lambda>t. if t = ''what a lovely sunny day'' then 0.5 else 0)
         \<lparr>tweet_id = 1, tweet_text = ''what a lovely sunny day'', polarity = None\<rparr>) = Inr 1
   \<and> polarity_negative_2
      (textblob_polarity (\<lambda>t. if t = ''what a lovely sunny day'' then 0.5 else 0)
         \<lparr>tweet_id = 1, tweet_text = ''what a lovely sunny day'', polarity = None\<rparr>) \<noteq> Inr 0
   \<and> polarity_positive
      (textblob_polarity (\<lambda>t. if t = ''what a lovely sunny day'' then 0.5 else 0)
         \<lparr>tweet_id = 2, tweet_text = ''it rains'', polarity = None\<rparr>) \<noteq> Inr 1
   \<and> polarity_negative_2
      (textblob_polarity (\<lambda>t. if t = ''what a lovely sunny day'' then 0.5 else 0)
         \<lparr>tweet_id = 2, tweet_text = ''it rains'', polarity = None\<rparr>) = Inr 0"
  using
    polarity_positive_negative_2_exclusive
      [of "\<lambda>t. if t = ''what a lovely sunny day'' then 0.5 else 0"
          "\<lparr>tweet_id = 1, tweet_text = ''what a lovely sunny day'', polarity = None\<rparr>"]
    polarity_positive_negative_2_exclusive
      [of "\<lambda>t. if t = ''what a lovely sunny day'' then 0.5 else 0"
          "\<lparr>tweet_id = 2, tweet_text = ''it rains'', polarity = None\<rparr>"]
  by simp

section \<open>Memoising the preprocessor does not change a vote\<close>

text \<open>The decorated functions: the preprocessor, then the body.\<close>

lemma lf_polarity_positive_eq:
  "lf_polarity_positive sentiment x =
     Inr (if 0.3 < sentiment (tweet_text x) then 1 else ABSTAIN)"
  by (simp add: lf_polarity_positive_def labeling_function_def polarity_positive_scored)

lemma lf_polarity_negative_eq:
  "lf_polarity_negative sentiment x =
     Inr (if sentiment (tweet_text x) < -0.25 then 0 else ABSTAIN)"
  by (simp add: lf_polarity_negative_def labeling_function_def polarity_negative_scored)

lemma lf_polarity_negative_2_eq:
  "lf_polarity_negative_2 sentiment x =
     Inr (if sentiment (tweet_text x) \<le> 0.3 then 0 else ABSTAIN)"
  by (simp add: lf_polarity_negative_2_def labeling_function_def polarity_negative_2_scored)

lemma cache_ok_empty: "cache_ok pre Map.empty"
  by (simp add: cache_ok_def)

lemma memoized_value: "cache_ok pre cache \<Longrightarrow> fst (memoized pre cache x) = pre x"
  by (auto simp: memoized_def cache_ok_def Let_def split: option.splits)

lemma memoized_cache_ok: "cache_ok pre cache \<Longrightarrow> cache_ok pre (snd (memoized pre cache x))"
  by (auto simp: memoized_def cache_ok_def Let_def split: option.splits)

lemma labeling_function_memo_vote:
  assumes "cache_ok pre cache"
  shows "fst (labeling_function_memo pre g cache x) = labeling_function [pre] g x"
proof -
  obtain y c1 where m: "memoized pre cache x = (y, c1)"
    by (cases "memoized pre cache x")
  with memoized_value [OF assms, of x] have "y = pre x"
    by simp
  with m show ?thesis
    by (simp add: labeling_function_memo_def labeling_function_def)
qed

lemma labeling_function_memo_cache_ok:
  assumes "cache_ok pre cache"
  shows "cache_ok pre (snd (labeling_function_memo pre g cache x))"
proof -
  obtain y c1 where m: "memoized pre cache x = (y, c1)"
    by (cases "memoized pre cache x")
  with memoized_cache_ok [OF assms, of x] have "cache_ok pre c1"
    by simp
  with m show ?thesis
    by (simp add: labeling_function_memo_def)
qed

text \<open>
  One row, then the whole matrix: by induction over the cells, with the cache
  generalised, since every cell may add to it.
\<close>

lemma apply_row_memo_sound:
  "cache_ok pre cache \<Longrightarrow>
     fst (apply_row_memo pre gs cache x) = map (\<lambda>g. labeling_function [pre] g x) gs
     \<and> cache_ok pre (snd (apply_row_memo pre gs cache x))"
proof (induction gs arbitrary: cache)
  case Nil
  then show ?case by simp
next
  case (Cons g gs)
  obtain v c1 where step: "labeling_function_memo pre g cache x = (v, c1)"
    by (cases "labeling_function_memo pre g cache x")
  obtain vs c2 where rest: "apply_row_memo pre gs c1 x = (vs, c2)"
    by (cases "apply_row_memo pre gs c1 x")
  from labeling_function_memo_vote [OF Cons.prems, of g x] step
  have v: "v = labeling_function [pre] g x" by simp
  from labeling_function_memo_cache_ok [OF Cons.prems, of g x] step
  have ok: "cache_ok pre c1" by simp
  from Cons.IH [OF ok] rest
  have "vs = map (\<lambda>g. labeling_function [pre] g x) gs" and "cache_ok pre c2"
    by simp_all
  with step rest v show ?case
    by simp
qed

lemma apply_memo_sound:
  "cache_ok pre cache \<Longrightarrow>
     fst (apply_memo pre gs cache xs) = apply_plain pre gs xs
     \<and> cache_ok pre (snd (apply_memo pre gs cache xs))"
proof (induction xs arbitrary: cache)
  case Nil
  then show ?case by (simp add: apply_plain_def)
next
  case (Cons x xs)
  obtain row c1 where step: "apply_row_memo pre gs cache x = (row, c1)"
    by (cases "apply_row_memo pre gs cache x")
  obtain rows c2 where rest: "apply_memo pre gs c1 xs = (rows, c2)"
    by (cases "apply_memo pre gs c1 xs")
  from apply_row_memo_sound [OF Cons.prems, of gs x] step
  have row: "row = map (\<lambda>g. labeling_function [pre] g x) gs" and ok: "cache_ok pre c1"
    by simp_all
  from Cons.IH [OF ok] rest
  have "rows = apply_plain pre gs xs" and "cache_ok pre c2"
    by simp_all
  with step rest row show ?case
    by (simp add: apply_plain_def)
qed

lemma apply_plain_text_lfs:
  "apply_plain (textblob_polarity sentiment) text_lfs ys =
     map (\<lambda>y. [lf_polarity_positive sentiment y, lf_polarity_negative sentiment y,
                lf_polarity_negative_2 sentiment y]) ys"
  by (simp add: apply_plain_def text_lfs_def lf_polarity_positive_def
      lf_polarity_negative_def lf_polarity_negative_2_def)

text \<open>
  Claim C8. Memoising \<^verbatim>\<open>textblob_polarity\<close>, the preprocessor the three polarity
  labeling functions share, changes no vote. Whatever batch \<open>xs\<close> has filled the cache
  before, the memoised pipeline gives on every batch \<open>ys\<close> the votes of the pipeline
  that runs the preprocessor afresh in every cell; and started on an empty cache it
  gives, for every data point, the votes of the three labeling functions.
\<close>

theorem memoize_textblob_polarity_pure:
  "fst (apply_memo (textblob_polarity sentiment) text_lfs
          (snd (apply_memo (textblob_polarity sentiment) text_lfs Map.empty xs)) ys)
     = apply_plain (textblob_polarity sentiment) text_lfs ys
   \<and> fst (apply_memo (textblob_polarity sentiment) text_lfs Map.empty ys)
     = map (\<lambda>y. [lf_polarity_positive sentiment y, lf_polarity_negative sentiment y,
                  lf_polarity_negative_2 sentiment y]) ys"
proof -
  let ?pre = "textblob_polarity sentiment"
  have ok0: "cache_ok ?pre Map.empty"
    by (rule cache_ok_empty)
  from apply_memo_sound [OF ok0, of text_lfs xs]
  have ok1: "cache_ok ?pre (snd (apply_memo ?pre text_lfs Map.empty xs))"
    by simp
  from apply_memo_sound [OF ok1, of text_lfs ys] apply_memo_sound [OF ok0, of text_lfs ys]
  show ?thesis
    by (simp add: apply_plain_text_lfs)
qed

theorem memoize_textblob_polarity_pure_witness:
  "fst (apply_memo
          (textblob_polarity (\<lambda>t. if t = ''what a lovely sunny day'' then 0.5 else - 0.5))
          text_lfs Map.empty
          [\<lparr>tweet_id = 1, tweet_text = ''what a lovely sunny day'', polarity = None\<rparr>,
           \<lparr>tweet_id = 2, tweet_text = ''it rains'', polarity = None\<rparr>,
           \<lparr>tweet_id = 1, tweet_text = ''what a lovely sunny day'', polarity = None\<rparr>])
     = [[Inr 1, Inr (- 1), Inr (- 1)], [Inr (- 1), Inr 0, Inr 0], [Inr 1, Inr (- 1), Inr (- 1)]]"
proof -
  define s :: "string \<Rightarrow> real"
    where "s = (\<lambda>t. if t = ''what a lovely sunny day'' then 0.5 else - 0.5)"
  define x1 where "x1 = \<lparr>tweet_id = 1, tweet_text = ''what a lovely sunny day'', polarity = None\<rparr>"
  define x2 where "x2 = \<lparr>tweet_id = 2, tweet_text = ''it rains'', polarity = None\<rparr>"
  from memoize_textblob_polarity_pure [of s "[]" "[x1, x2, x1]"]
  have "fst (apply_memo (textblob_polarity s) text_lfs Map.empty [x1, x2, x1])
      = map (\<lambda>y. [lf_polarity_positive s y, lf_polarity_negative s y,
                   lf_polarity_negative_2 s y]) [x1, x2, x1]"
    by blast
  also have "\<dots> = [[Inr 1, Inr (- 1), Inr (- 1)], [Inr (- 1), Inr 0, Inr 0],
                   [Inr 1, Inr (- 1), Inr (- 1)]]"
    by (simp add: lf_polarity_positive_eq lf_polarity_negative_eq lf_polarity_negative_2_eq
        ABSTAIN_def s_def x1_def x2_def)
  finally show ?thesis
    unfolding s_def x1_def x2_def .
qed

end
